theory Spec2Isabelle
  imports Main
begin

section \<open>JavaScript values and the timer runtime\<close>

text \<open>
  Every failure in the sources is a plain \<^verbatim>\<open>Error(message)\<close>; the message is kept.
  A promise is pending or settled. Seconds and milliseconds are integers.
\<close>

datatype error = Error string

datatype 'a promise = Pending | Fulfilled 'a | Rejected error

text \<open>What a call does before its first suspension point: it throws, or it returns a value.\<close>

datatype 'a call = Throws error | Returns 'a

text \<open>
  The timers of the runtime: the pending ones, each with the handle \<^verbatim>\<open>setTimeout\<close>
  returned and the delay (in milliseconds) it was given, and the calls of \<^verbatim>\<open>setTimeout\<close> and
  \<^verbatim>\<open>clearTimeout\<close> made so far, in order. Each component below arms timers with one
  callback only, so the callback is not stored.
\<close>

datatype timer_call = SetTimeout nat int | ClearTimeout nat

record timer_rt =
  timers :: "(nat \<times> int) list"
  next_timer :: nat
  timer_calls :: "timer_call list"

definition setTimeout :: "int \<Rightarrow> 'a timer_rt_scheme \<Rightarrow> nat \<times> 'a timer_rt_scheme" where
  "setTimeout ms r =
     (next_timer r,
      r\<lparr>timers := timers r @ [(next_timer r, ms)], next_timer := Suc (next_timer r),
        timer_calls := timer_calls r @ [SetTimeout (next_timer r) ms]\<rparr>)"

definition clearTimeout :: "nat \<Rightarrow> 'a timer_rt_scheme \<Rightarrow> 'a timer_rt_scheme" where
  "clearTimeout h r =
     r\<lparr>timers := filter (\<lambda>t. fst t \<noteq> h) (timers r),
       timer_calls := timer_calls r @ [ClearTimeout h]\<rparr>"

text \<open>A timer that fires is no longer pending when its callback runs.\<close>

definition timer_fired :: "nat \<Rightarrow> 'a timer_rt_scheme \<Rightarrow> 'a timer_rt_scheme" where
  "timer_fired h r = r\<lparr>timers := filter (\<lambda>t. fst t \<noteq> h) (timers r)\<rparr>"

text \<open>The timer calls made between a state and a later one.\<close>

definition calls_since :: "'a timer_rt_scheme \<Rightarrow> 'b timer_rt_scheme \<Rightarrow> timer_call list" where
  "calls_since r r' = drop (length (timer_calls r)) (timer_calls r')"

text \<open>
  The delay Node.js really waits: a delay below 1 ms or above \<open>2^31 - 1\<close> ms is replaced
  by 1 ms, and \<^verbatim>\<open>setTimeout\<close> never throws on a number.
\<close>

definition node_delay :: "int \<Rightarrow> int" where
  "node_delay ms = (if 1 \<le> ms \<and> ms \<le> 2147483647 then ms else 1)"

section \<open>The HTTP server of the support service (Server.ts)\<close>

datatype server_status = SrvStarted | SrvStopped

text \<open>\<^verbatim>\<open>AddressInfo\<close>: the address and the port the server listens on.\<close>

type_synonym AddressInfo = "string \<times> nat"

record InnertubeSupportServer =
  srv_server :: "AddressInfo option"
  srv_status :: server_status
  srv_startPromise :: "AddressInfo promise option"

definition new_server :: InnertubeSupportServer where
  "new_server = \<lparr>srv_server = None, srv_status = SrvStopped, srv_startPromise = None\<rparr>"

text \<open>\<^verbatim>\<open>start()\<close> up to the pending \<^verbatim>\<open>app.listen\<close>.\<close>

definition server_start :: "InnertubeSupportServer \<Rightarrow> InnertubeSupportServer" where
  "server_start srv =
     (case srv_startPromise srv of
        None \<Rightarrow> srv\<lparr>srv_startPromise := Some Pending\<rparr>
      | Some p \<Rightarrow> srv)"

text \<open>The callback of \<^verbatim>\<open>app.listen\<close>, with the error or the address of the socket.\<close>

fun server_listened :: "error + AddressInfo \<Rightarrow> InnertubeSupportServer \<Rightarrow> InnertubeSupportServer" where
  "server_listened (Inl err) srv =
     srv\<lparr>srv_server := None, srv_startPromise := None, srv_status := SrvStopped\<rparr>"
| "server_listened (Inr a) srv =
     srv\<lparr>srv_server := Some a, srv_status := SrvStarted, srv_startPromise := Some (Fulfilled a)\<rparr>"

text \<open>
  \<^verbatim>\<open>stop()\<close>: returns nothing when the status is stopped; otherwise a promise, pending on
  \<^verbatim>\<open>server.close\<close> when there is a server and resolved at once when there is none.
\<close>

definition server_stop :: "InnertubeSupportServer \<Rightarrow> unit promise option" where
  "server_stop srv =
     (if srv_status srv = SrvStopped then None
      else if srv_server srv \<noteq> None then Some Pending
      else Some (Fulfilled ()))"

text \<open>The callback of \<^verbatim>\<open>server.close\<close>.\<close>

fun server_closed :: "error option \<Rightarrow> InnertubeSupportServer \<Rightarrow> unit promise \<times> InnertubeSupportServer" where
  "server_closed (Some err) srv = (Rejected err, srv)"
| "server_closed None srv =
     (Fulfilled (),
      srv\<lparr>srv_startPromise := None, srv_server := None, srv_status := SrvStopped\<rparr>)"

subsection \<open>Routes\<close>

datatype 'a body = ErrorBody string | JsonBody 'a

datatype 'a response = Response nat "'a body"

record PotFnResult =
  poToken :: string
  res_ttl :: int
  res_refreshThreshold :: "int option"

text \<open>
  \<^verbatim>\<open>GET /pot\<close>: the query parameter is absent or a string; the empty string is falsy.
  \<open>potFn\<close> is the awaited result of the configured function.
\<close>

definition pot_route :: "(string \<Rightarrow> PotFnResult) \<Rightarrow> string option \<Rightarrow> PotFnResult response" where
  "pot_route potFn identifier =
     (case identifier of
        None \<Rightarrow> Response 500 (ErrorBody ''Request is missing param \"identifier\"'')
      | Some i \<Rightarrow>
          if i = [] then Response 500 (ErrorBody ''Request is missing param \"identifier\"'')
          else Response 200 (JsonBody (potFn i)))"

section \<open>The support service (Service.ts)\<close>

datatype InnertubeSupportServiceStatus = Stopped | Started string nat

text \<open>The result of \<^verbatim>\<open>createPoTokenMinter\<close>; the minter itself is an opaque handle.\<close>

record PoTokenMinterResult =
  minter :: nat
  ttl :: int
  refreshThreshold :: "int option"
  created :: int

text \<open>
  The private fields of \<^verbatim>\<open>InnertubeSupportService\<close> on top of the timer runtime, and the
  promises of the \<^verbatim>\<open>#createMinter\<close> calls: call number \<open>p\<close> (counted by \<open>exchanges\<close>, one
  \<^verbatim>\<open>createPoTokenMinter()\<close> each) is in \<open>awaiting\<close> while it is suspended at its
  \<^verbatim>\<open>await\<close> and in \<open>outcome\<close> once settled.
\<close>

record service = timer_rt +
  status :: InnertubeSupportServiceStatus
  server :: "InnertubeSupportServer option"
  startPromise :: "InnertubeSupportServiceStatus promise option"
  minterPromise :: "nat option"
  refreshMinterTimer :: "nat option"
  exchanges :: nat
  awaiting :: "nat list"
  outcome :: "nat \<rightharpoonup> error + PoTokenMinterResult"

definition new_service :: service where
  "new_service =
     \<lparr>timers = [], next_timer = 0, timer_calls = [], status = Stopped, server = None, startPromise = None,
      minterPromise = None, refreshMinterTimer = None, exchanges = 0, awaiting = [],
      outcome = Map.empty\<rparr>"

definition clearRefreshMinterTimer :: "service \<Rightarrow> service" where
  "clearRefreshMinterTimer s =
     (case refreshMinterTimer s of
        Some h \<Rightarrow> (clearTimeout h s)\<lparr>refreshMinterTimer := None\<rparr>
      | None \<Rightarrow> s\<lparr>refreshMinterTimer := None\<rparr>)"

text \<open>
  \<^verbatim>\<open>#createMinter\<close> up to its \<^verbatim>\<open>await createPoTokenMinter()\<close>: the timer is cleared, the
  exchange is started, and the promise of the call is returned.
\<close>

definition createMinter_begin :: "service \<Rightarrow> nat \<times> service" where
  "createMinter_begin s =
     (let s1 = clearRefreshMinterTimer s; p = exchanges s1
      in (p, s1\<lparr>exchanges := Suc p, awaiting := awaiting s1 @ [p]\<rparr>))"

text \<open>
  \<^verbatim>\<open>#createMinter\<close> from the \<^verbatim>\<open>await\<close> on: a failed exchange rejects the promise of the
  call; a minter arms the refresh timer and fulfils it.
\<close>

fun createMinter_resume :: "nat \<Rightarrow> error + PoTokenMinterResult \<Rightarrow> service \<Rightarrow> service" where
  "createMinter_resume p (Inl err) s =
     s\<lparr>awaiting := removeAll p (awaiting s), outcome := (outcome s)(p \<mapsto> Inl err)\<rparr>"
| "createMinter_resume p (Inr minterResult) s =
     (let refreshThreshold' = (case refreshThreshold minterResult of None \<Rightarrow> 100 | Some t \<Rightarrow> t);
          timeout = ttl minterResult - refreshThreshold' - 100;
          (h, s1) = setTimeout (timeout * 1000) s
      in s1\<lparr>refreshMinterTimer := Some h, awaiting := removeAll p (awaiting s1),
             outcome := (outcome s1)(p \<mapsto> Inr minterResult)\<rparr>)"

text \<open>\<^verbatim>\<open>#getMinter(forceCreate)\<close>: the promise it resolves to, and the state.\<close>

definition getMinter :: "bool \<Rightarrow> service \<Rightarrow> nat \<times> service" where
  "getMinter forceCreate s =
     (if minterPromise s = None \<or> forceCreate then
        (let (p, s1) = createMinter_begin s in (p, s1\<lparr>minterPromise := Some p\<rparr>))
      else (the (minterPromise s), s))"

text \<open>The callback of the refresh timer: \<^verbatim>\<open>this.#minterPromise = this.#createMinter()\<close>.\<close>

definition refreshMinter_fired :: "service \<Rightarrow> service" where
  "refreshMinter_fired s = (let (p, s1) = createMinter_begin s in s1\<lparr>minterPromise := Some p\<rparr>)"

text \<open>
  \<^verbatim>\<open>potFn\<close> after its two awaits: \<open>r\<close> is the minter result, \<open>tok\<close> the minted token and
  \<open>now\<close> the value of \<^verbatim>\<open>Date.now()\<close>. \<^verbatim>\<open>Math.floor\<close> of a quotient of integers is \<open>div\<close>.
\<close>

definition potFn_result :: "PoTokenMinterResult \<Rightarrow> string \<Rightarrow> int \<Rightarrow> PotFnResult" where
  "potFn_result r tok now =
     (let adjustedTTL = (ttl r * 1000 + created r - now) div 1000
      in \<lparr>poToken = tok, res_ttl = adjustedTTL, res_refreshThreshold = refreshThreshold r\<rparr>)"

text \<open>
  \<^verbatim>\<open>start()\<close> up to the \<^verbatim>\<open>await this.#server.start()\<close> inside the executor: a present
  start promise is returned as it is.
\<close>

definition start :: "service \<Rightarrow> service" where
  "start s =
     (case startPromise s of
        Some p \<Rightarrow> s
      | None \<Rightarrow> s\<lparr>server := Some (server_start new_server), startPromise := Some Pending\<rparr>)"

text \<open>
  \<^verbatim>\<open>start()\<close> from that \<^verbatim>\<open>await\<close> on, once the server has listened or failed to: the
  \<^verbatim>\<open>resolve\<close> of the \<^verbatim>\<open>try\<close> block, or the \<^verbatim>\<open>catch\<close> block.
\<close>

fun start_resume :: "error + AddressInfo \<Rightarrow> service \<Rightarrow> service" where
  "start_resume (Inr a) s =
     s\<lparr>server := map_option (server_listened (Inr a)) (server s),
       startPromise := Some (Fulfilled (Started (fst a) (snd a)))\<rparr>"
| "start_resume (Inl err) s =
     s\<lparr>startPromise := None, server := None, status := Stopped\<rparr>"

text \<open>
  \<^verbatim>\<open>stop()\<close> up to its \<^verbatim>\<open>await\<close>: \<open>None\<close> when it returns without having called anything
  that can suspend, otherwise the promise of \<^verbatim>\<open>this.#server.stop()\<close>.
\<close>

definition stop :: "service \<Rightarrow> unit promise option" where
  "stop s =
     (if status s = Stopped then None
      else case server s of None \<Rightarrow> None | Some srv \<Rightarrow> server_stop srv)"

text \<open>The \<^verbatim>\<open>finally\<close> handler of \<^verbatim>\<open>stop()\<close>, run when the promise of the server settles.\<close>

definition stop_finally :: "service \<Rightarrow> service" where
  "stop_finally s = s\<lparr>startPromise := None, server := None, status := Stopped\<rparr>"

subsection \<open>Runs of the service\<close>

datatype service_event =
    StartCalled
  | Listened "error + AddressInfo"
  | StopSettled
  | PotRequested
  | ExchangeSettled nat "error + PoTokenMinterResult"
  | TimerFired nat

fun service_step :: "service \<Rightarrow> service_event \<Rightarrow> service" where
  "service_step s StartCalled = start s"
| "service_step s (Listened r) = (if startPromise s = Some Pending then start_resume r s else s)"
| "service_step s StopSettled = (if stop s = None then s else stop_finally s)"
| "service_step s PotRequested = snd (getMinter False s)"
| "service_step s (ExchangeSettled p r) =
     (if p \<in> set (awaiting s) then createMinter_resume p r s else s)"
| "service_step s (TimerFired h) =
     (if h \<in> fst ` set (timers s) then refreshMinter_fired (timer_fired h s) else s)"

definition service_run :: "service_event list \<Rightarrow> service" where
  "service_run evs = foldl service_step new_service evs"

section \<open>The session wrapper (Wrapper.ts)\<close>

record Locale =
  region :: "string option"
  language :: "string option"

record AccountConfig =
  cookie :: "string option"
  activeChannelHandle :: "string option"

datatype identifier_type = VisitorData | DatasyncIdToken

record pot_identifier =
  id_type :: identifier_type
  id_value :: string
  pageId :: "string option"

text \<open>\<^verbatim>\<open>POToken\<close>, with the two fields of \<^verbatim>\<open>params\<close> side by side with the others.\<close>

record POToken =
  params_visitorData :: "string option"
  params_identifier :: pot_identifier
  pot_value :: string
  pot_ttl :: "int option"
  pot_refreshThreshold :: "int option"

text \<open>What the wrapper reads and writes of an \<^verbatim>\<open>Innertube\<close> instance.\<close>

record Innertube =
  visitor_data :: "string option"
  on_behalf_of_user :: "string option"
  po_token :: "string option"
  gl :: string
  hl :: string

datatype runtime_kind = Node | Deno

record SpawnedInnertubeSupportService =
  svc_status :: InnertubeSupportServiceStatus
  runtime :: runtime_kind

text \<open>
  Where a call of \<^verbatim>\<open>#initInnertube\<close> is suspended: at
  \<^verbatim>\<open>await this.#generateSessionPoToken()\<close>, or at one of the two
  \<^verbatim>\<open>await Innertube.create(...)\<close>, the session token (or its absence) in hand.
\<close>

datatype init_phase = AwaitSessionPoToken | AwaitInnertube "POToken option"

text \<open>
  The private fields of \<^verbatim>\<open>InnertubeWrapper\<close> on top of the timer runtime, and the promises
  of the \<^verbatim>\<open>#initInnertube\<close> calls: call number \<open>p\<close> (counted by \<open>inits\<close>) is in \<open>suspended\<close>
  while it awaits and in \<open>settled\<close> once it has returned \<^verbatim>\<open>this.#innertube\<close> or thrown.
\<close>

record wrapper = timer_rt +
  account :: "AccountConfig option"
  wlocale :: Locale
  innertubePromise :: "nat option"
  wservice :: "SpawnedInnertubeSupportService option"
  innertube :: "Innertube option"
  lastSessionPoToken :: "POToken option"
  poTokenRefreshTimer :: "nat option"
  disposed :: bool
  inits :: nat
  suspended :: "(nat \<times> init_phase) list"
  settled :: "nat \<rightharpoonup> error + Innertube option"

definition new_wrapper :: wrapper where
  "new_wrapper =
     \<lparr>timers = [], next_timer = 0, timer_calls = [], account = None,
      wlocale = \<lparr>region = None, language = None\<rparr>, innertubePromise = None,
      wservice = None, innertube = None, lastSessionPoToken = None,
      poTokenRefreshTimer = None, disposed = False, inits = 0, suspended = [],
      settled = Map.empty\<rparr>"

definition DisposedError :: error where
  "DisposedError = Error ''Innertube instance already disposed''"

definition checkDisposed :: "wrapper \<Rightarrow> error option" where
  "checkDisposed w = (if disposed w then Some DisposedError else None)"

definition clearPoTokenRefreshTimer :: "wrapper \<Rightarrow> wrapper" where
  "clearPoTokenRefreshTimer w =
     (case poTokenRefreshTimer w of
        Some h \<Rightarrow> (clearTimeout h w)\<lparr>poTokenRefreshTimer := None\<rparr>
      | None \<Rightarrow> w)"

text \<open>A string that is present and not empty is truthy.\<close>

definition truthy :: "string option \<Rightarrow> bool" where
  "truthy v = (case v of None \<Rightarrow> False | Some x \<Rightarrow> x \<noteq> [])"

definition applyLocale :: "wrapper \<Rightarrow> error + wrapper" where
  "applyLocale w =
     (case checkDisposed w of
        Some err \<Rightarrow> Inl err
      | None \<Rightarrow>
          (case innertube w of
             None \<Rightarrow> Inr w
           | Some i \<Rightarrow>
               Inr (w\<lparr>innertube := Some
                 (i\<lparr>gl := (if truthy (region (wlocale w)) then the (region (wlocale w)) else gl i),
                    hl := (if truthy (language (wlocale w)) then the (language (wlocale w)) else hl i)\<rparr>)\<rparr>)))"

text \<open>The promise of call \<open>p\<close> of \<^verbatim>\<open>#initInnertube\<close> settles.\<close>

definition init_settle :: "nat \<Rightarrow> error + Innertube option \<Rightarrow> wrapper \<Rightarrow> wrapper" where
  "init_settle p r w =
     w\<lparr>suspended := filter (\<lambda>e. fst e \<noteq> p) (suspended w), settled := (settled w)(p \<mapsto> r)\<rparr>"

definition init_suspend :: "nat \<Rightarrow> init_phase \<Rightarrow> wrapper \<Rightarrow> wrapper" where
  "init_suspend p ph w = w\<lparr>suspended := filter (\<lambda>e. fst e \<noteq> p) (suspended w) @ [(p, ph)]\<rparr>"

text \<open>\<^verbatim>\<open>#initInnertube\<close> up to its first \<^verbatim>\<open>await\<close>.\<close>

definition initInnertube_begin :: "wrapper \<Rightarrow> nat \<times> wrapper" where
  "initInnertube_begin w =
     (let w1 = clearPoTokenRefreshTimer w; p = inits w1
      in (p, w1\<lparr>inits := Suc p, suspended := suspended w1 @ [(p, AwaitSessionPoToken)]\<rparr>))"

definition initInnertubePromise :: "wrapper \<Rightarrow> nat \<times> wrapper" where
  "initInnertubePromise w =
     (case innertubePromise w of
        None \<Rightarrow> (let (p, w1) = initInnertube_begin w in (p, w1\<lparr>innertubePromise := Some p\<rparr>))
      | Some p \<Rightarrow> (p, w))"

definition getInnertube :: "wrapper \<Rightarrow> nat call \<times> wrapper" where
  "getInnertube w =
     (case checkDisposed w of
        Some err \<Rightarrow> (Throws err, w)
      | None \<Rightarrow> (let (p, w1) = initInnertubePromise w in (Returns p, w1)))"

text \<open>
  The branch of \<^verbatim>\<open>#initInnertube\<close> without a session token, from \<^verbatim>\<open>this.#applyLocale()\<close>
  on.
\<close>

definition initInnertube_unbound :: "nat \<Rightarrow> wrapper \<Rightarrow> wrapper" where
  "initInnertube_unbound p w =
     (case applyLocale w of
        Inl err \<Rightarrow> init_settle p (Inl err) w
      | Inr w1 \<Rightarrow> init_settle p (Inr (innertube w1)) w1)"

text \<open>
  \<^verbatim>\<open>#initInnertube\<close> once \<^verbatim>\<open>#generateSessionPoToken\<close> has settled; what that method
  returns depends on the remote client and on the reply of the service, and is given.
\<close>

fun initInnertube_token :: "nat \<Rightarrow> error + POToken option \<Rightarrow> wrapper \<Rightarrow> wrapper" where
  "initInnertube_token p (Inl err) w = init_settle p (Inl err) w"
| "initInnertube_token p (Inr sessionPot) w =
     (let w1 = w\<lparr>lastSessionPoToken := sessionPot\<rparr>
      in case sessionPot of
           None \<Rightarrow>
             (case innertube w1 of
                Some i \<Rightarrow> initInnertube_unbound p w1
              | None \<Rightarrow> init_suspend p (AwaitInnertube None) w1)
         | Some pot \<Rightarrow> init_suspend p (AwaitInnertube (Some pot)) w1)"

text \<open>The timer armed at the end of \<^verbatim>\<open>#initInnertube\<close> for a session token.\<close>

definition arm_refresh :: "POToken \<Rightarrow> wrapper \<Rightarrow> wrapper" where
  "arm_refresh sessionPot w =
     (let refreshThreshold' = (case pot_refreshThreshold sessionPot of None \<Rightarrow> 100 | Some t \<Rightarrow> t)
      in case pot_ttl sessionPot of
           None \<Rightarrow> w
         | Some ttl' \<Rightarrow>
             if ttl' = 0 then w
             else
               (let timeout = ttl' - refreshThreshold';
                    timeout' = (if timeout < 0 then 120 else timeout);
                    (h, w1) = setTimeout (timeout' * 1000) w
                in w1\<lparr>poTokenRefreshTimer := Some h\<rparr>))"

text \<open>\<^verbatim>\<open>#initInnertube\<close> once \<^verbatim>\<open>Innertube.create\<close> has settled.\<close>

fun initInnertube_created ::
  "nat \<Rightarrow> POToken option \<Rightarrow> error + Innertube \<Rightarrow> wrapper \<Rightarrow> wrapper" where
  "initInnertube_created p sessionPot (Inl err) w = init_settle p (Inl err) w"
| "initInnertube_created p None (Inr i) w = initInnertube_unbound p (w\<lparr>innertube := Some i\<rparr>)"
| "initInnertube_created p (Some pot) (Inr i) w =
     (case applyLocale (w\<lparr>innertube := Some i\<rparr>) of
        Inl err \<Rightarrow> init_settle p (Inl err) (w\<lparr>innertube := Some i\<rparr>)
      | Inr w1 \<Rightarrow> (let w2 = arm_refresh pot w1 in init_settle p (Inr (innertube w2)) w2))"

text \<open>The callback of the session refresh timer.\<close>

definition refreshSessionPoToken :: "wrapper \<Rightarrow> wrapper" where
  "refreshSessionPoToken w =
     (let w1 = clearPoTokenRefreshTimer w; (p, w2) = initInnertube_begin w1
      in w2\<lparr>innertubePromise := Some p\<rparr>)"

text \<open>
  \<^verbatim>\<open>dispose()\<close> up to its \<^verbatim>\<open>await this.#service.stop()\<close>, which it reaches when there is a
  service, and from there on.
\<close>

datatype dispose_progress = DisposeReturned | DisposeAwaitsStop

definition dispose :: "wrapper \<Rightarrow> dispose_progress \<times> wrapper" where
  "dispose w =
     (if disposed w then (DisposeReturned, w)
      else
        (let w1 = clearPoTokenRefreshTimer w;
             w2 = w1\<lparr>disposed := True, innertubePromise := None, lastSessionPoToken := None,
                     innertube := None\<rparr>
         in if wservice w2 \<noteq> None then (DisposeAwaitsStop, w2) else (DisposeReturned, w2)))"

definition dispose_resume :: "wrapper \<Rightarrow> wrapper" where
  "dispose_resume w = w\<lparr>wservice := None\<rparr>"

text \<open>
  The body of \<^verbatim>\<open>generatePoToken\<close> up to its \<^verbatim>\<open>fetch\<close>: the error thrown there, or the
  request sent (address, port and identifier).
\<close>

definition generatePoToken_fetch :: "string \<Rightarrow> wrapper \<Rightarrow> error + string \<times> nat \<times> string" where
  "generatePoToken_fetch ident w =
     (case checkDisposed w of
        Some err \<Rightarrow> Inl err
      | None \<Rightarrow>
          (case wservice w of
             None \<Rightarrow> Inl (Error ''Innertube support service not started'')
           | Some svc \<Rightarrow>
               (case svc_status svc of
                  Stopped \<Rightarrow> Inl (Error ''Innertube support service not started'')
                | Started address port \<Rightarrow> Inr (address, port, ident))))"

text \<open>
  \<^verbatim>\<open>generatePoToken\<close> is an async method: the call never throws. It returns a promise,
  already rejected when its body has thrown before the \<^verbatim>\<open>fetch\<close>, pending on the reply
  otherwise.
\<close>

definition generatePoToken :: "string \<Rightarrow> wrapper \<Rightarrow> PotFnResult promise call" where
  "generatePoToken ident w =
     Returns (case generatePoToken_fetch ident w of
                Inl err \<Rightarrow> Rejected err
              | Inr request \<Rightarrow> Pending)"

definition setLocale :: "Locale \<Rightarrow> wrapper \<Rightarrow> unit call \<times> wrapper" where
  "setLocale l w =
     (case checkDisposed w of
        Some err \<Rightarrow> (Throws err, w)
      | None \<Rightarrow>
          (case applyLocale (w\<lparr>wlocale := l\<rparr>) of
             Inl err \<Rightarrow> (Throws err, w\<lparr>wlocale := l\<rparr>)
           | Inr w1 \<Rightarrow> (Returns (), w1)))"

text \<open>
  \<^verbatim>\<open>InnertubeWrapper.create\<close> once the service has been spawned: the instance as it is
  when \<^verbatim>\<open>create\<close> awaits the first \<^verbatim>\<open>#initInnertubePromise()\<close>, or the error thrown.
\<close>

record create_params =
  p_account :: "AccountConfig option"
  p_locale :: "Locale option"

definition create_spawned :: "create_params \<Rightarrow> SpawnedInnertubeSupportService \<Rightarrow> error + wrapper" where
  "create_spawned params svc =
     (let instance = new_wrapper
        \<lparr>account := p_account params,
         wlocale := (case p_locale params of None \<Rightarrow> \<lparr>region = None, language = None\<rparr> | Some l \<Rightarrow> l),
         wservice := Some svc\<rparr>
      in case svc_status svc of
           Started address port \<Rightarrow> Inr (snd (initInnertubePromise instance))
         | Stopped \<Rightarrow> Inl (Error ''Failed to start Innertube support service''))"

subsection \<open>Runs of the wrapper\<close>

datatype wrapper_event =
    GetInnertube
  | SetLocale Locale
  | GeneratePoToken string
  | Dispose
  | DisposeStopped
  | ServiceStopped
  | SessionPoTokenSettled nat "error + POToken option"
  | InnertubeCreated nat "error + Innertube"
  | RefreshTimerFired nat

fun wrapper_step :: "wrapper \<Rightarrow> wrapper_event \<Rightarrow> wrapper" where
  "wrapper_step w GetInnertube = snd (getInnertube w)"
| "wrapper_step w (SetLocale l) = snd (setLocale l w)"
| "wrapper_step w (GeneratePoToken i) = w"
| "wrapper_step w Dispose = snd (dispose w)"
| "wrapper_step w DisposeStopped = (if disposed w then dispose_resume w else w)"
| "wrapper_step w ServiceStopped = w\<lparr>wservice := None\<rparr>"
| "wrapper_step w (SessionPoTokenSettled p r) =
     (if (p, AwaitSessionPoToken) \<in> set (suspended w) then initInnertube_token p r w else w)"
| "wrapper_step w (InnertubeCreated p r) =
     (case map_of (suspended w) p of
        Some (AwaitInnertube sessionPot) \<Rightarrow> initInnertube_created p sessionPot r w
      | Some AwaitSessionPoToken \<Rightarrow> w
      | None \<Rightarrow> w)"
| "wrapper_step w (RefreshTimerFired h) =
     (if h \<in> fst ` set (timers w) then refreshSessionPoToken (timer_fired h w) else w)"

definition wrapper_run :: "wrapper \<Rightarrow> wrapper_event list \<Rightarrow> wrapper" where
  "wrapper_run w evs = foldl wrapper_step w evs"

section \<open>Spawning the support service (Spawn.ts)\<close>

datatype DenoInstallStatus = DenoInstalled string | DenoMissing error

text \<open>
  The callbacks the caller is given: \<^verbatim>\<open>onStdOut\<close> (with its own constructor for the
  message about the exit code, which may be null), \<^verbatim>\<open>onStdErr\<close> and \<^verbatim>\<open>onStop\<close>.
\<close>

datatype callback = OnStdOut string | OnStdOutClosed "int option" | OnStdErr string | OnStop

text \<open>
  What is done to the subprocess and to the line reader: \<^verbatim>\<open>proc.kill()\<close>, \<^verbatim>\<open>kill(proc.pid)\<close>
  of tree-kill, which signals the process and all its descendants, and \<^verbatim>\<open>rl.close()\<close>.
\<close>

datatype process_action = ProcKill | TreeKill nat | ReadlineClose

text \<open>
  The promise \<^verbatim>\<open>spawnInnertubeSupportService\<close> returns (its value: the parsed result and the
  runtime; the \<^verbatim>\<open>stop\<close> closure is \<open>spawned_stop\<close> below), the pid of the subprocess if it
  has one, the callbacks and actions so far, and the promises returned by the calls of
  \<^verbatim>\<open>stop\<close>, in order.
\<close>

record 'j spawned =
  sp_runtime :: runtime_kind
  pid :: "nat option"
  result :: "('j \<times> runtime_kind) promise"
  callbacks :: "callback list"
  actions :: "process_action list"
  stop_promises :: "unit promise list"

text \<open>\<^verbatim>\<open>resolve\<close> and \<^verbatim>\<open>reject\<close> change a pending promise only.\<close>

definition settle :: "'a promise \<Rightarrow> 'a promise \<Rightarrow> 'a promise" where
  "settle p v = (case p of Pending \<Rightarrow> v | Fulfilled x \<Rightarrow> p | Rejected err \<Rightarrow> p)"

fun is_rejected :: "'a promise \<Rightarrow> bool" where
  "is_rejected (Rejected err) = True"
| "is_rejected Pending = False"
| "is_rejected (Fulfilled x) = False"

text \<open>The executor of the promise, up to the registration of the listeners.\<close>

definition spawnInnertubeSupportService :: "DenoInstallStatus \<Rightarrow> nat option \<Rightarrow> 'j spawned" where
  "spawnInnertubeSupportService denoStatus child_pid =
     (case denoStatus of
        DenoInstalled version \<Rightarrow>
          \<lparr>sp_runtime = Deno, pid = child_pid, result = Pending,
           callbacks = [OnStdOut (''Start service with Deno: '' @ version)],
           actions = [], stop_promises = []\<rparr>
      | DenoMissing (Error message) \<Rightarrow>
          \<lparr>sp_runtime = Node, pid = child_pid, result = Pending,
           callbacks =
             [OnStdOut (''Deno not installed or otherwise failed to start: '' @ message),
              OnStdOut ''Start service with Node''],
           actions = [], stop_promises = []\<rparr>)"

text \<open>
  The listener of \<^verbatim>\<open>'line'\<close>. \<open>parse\<close> stands for \<^verbatim>\<open>JSON.parse\<close>: the value, or the
  message of the error it throws. Lines already read can still arrive after
  \<^verbatim>\<open>rl.close()\<close>, so the listener stays in place.
\<close>

definition on_line :: "(string \<Rightarrow> string + 'j) \<Rightarrow> string \<Rightarrow> 'j spawned \<Rightarrow> 'j spawned" where
  "on_line parse line st =
     (if take (length ''result: '') line = ''result: '' then
        (let resultJSON = drop (length ''result: '') line
         in case parse resultJSON of
              Inr j \<Rightarrow>
                st\<lparr>result := settle (result st) (Fulfilled (j, sp_runtime st)),
                   actions := actions st @ [ReadlineClose]\<rparr>
            | Inl message \<Rightarrow>
                st\<lparr>result := settle (result st)
                       (Rejected (Error (''Failed to parse service result: '' @ message))),
                   actions := actions st @ [ProcKill, ReadlineClose]\<rparr>)
      else st)"

text \<open>
  The listeners of \<^verbatim>\<open>'close'\<close>: the one registered by the executor, then the
  \<^verbatim>\<open>once('close')\<close> listeners of the pending calls of \<^verbatim>\<open>stop\<close>.
\<close>

definition on_close :: "int option \<Rightarrow> 'j spawned \<Rightarrow> 'j spawned" where
  "on_close code st =
     st\<lparr>callbacks := callbacks st @ [OnStdOutClosed code, OnStop],
        stop_promises := map (\<lambda>p. settle p (Fulfilled ())) (stop_promises st)\<rparr>"

text \<open>
  The \<^verbatim>\<open>stop\<close> closure: the index of the promise it returns, and the state. A pid is a
  positive number, so a process has one exactly when \<^verbatim>\<open>proc.pid\<close> is truthy.
\<close>

definition spawned_stop :: "'j spawned \<Rightarrow> nat \<times> 'j spawned" where
  "spawned_stop st =
     (let st1 = st\<lparr>callbacks := callbacks st @ [OnStdOut ''Stopping service...'']\<rparr>;
          k = length (stop_promises st1)
      in case pid st1 of
           Some p \<Rightarrow>
             (k, st1\<lparr>stop_promises := stop_promises st1 @ [Pending],
                     actions := actions st1 @ [TreeKill p]\<rparr>)
         | None \<Rightarrow>
             (k, st1\<lparr>callbacks := callbacks st1 @
                       [OnStdErr ''Could not stop service because process lacks pid''],
                     stop_promises := stop_promises st1 @ [Fulfilled ()]\<rparr>))"

subsection \<open>Runs of a spawned process\<close>

text \<open>
  What happens to a spawned process: data on its output streams, a line read, its exit,
  and a call of \<^verbatim>\<open>stop\<close> by the holder of the fulfilled result.
\<close>

datatype process_event =
    StdoutData string
  | StderrData string
  | Line string
  | Close "int option"
  | StopCalled

fun is_Close :: "process_event \<Rightarrow> bool" where
  "is_Close (Close code) = True"
| "is_Close (StdoutData d) = False"
| "is_Close (StderrData d) = False"
| "is_Close (Line l) = False"
| "is_Close StopCalled = False"

fun is_result_line :: "process_event \<Rightarrow> bool" where
  "is_result_line (Line l) = (take (length ''result: '') l = ''result: '')"
| "is_result_line (Close code) = False"
| "is_result_line (StdoutData d) = False"
| "is_result_line (StderrData d) = False"
| "is_result_line StopCalled = False"

fun spawn_step :: "(string \<Rightarrow> string + 'j) \<Rightarrow> 'j spawned \<Rightarrow> process_event \<Rightarrow> 'j spawned" where
  "spawn_step parse st (StdoutData d) = st\<lparr>callbacks := callbacks st @ [OnStdOut d]\<rparr>"
| "spawn_step parse st (StderrData d) = st\<lparr>callbacks := callbacks st @ [OnStdErr d]\<rparr>"
| "spawn_step parse st (Line l) = on_line parse l st"
| "spawn_step parse st (Close code) = on_close code st"
| "spawn_step parse st StopCalled =
     (case result st of
        Fulfilled v \<Rightarrow> snd (spawned_stop st)
      | Pending \<Rightarrow> st
      | Rejected err \<Rightarrow> st)"

definition spawn_run :: "(string \<Rightarrow> string + 'j) \<Rightarrow> 'j spawned \<Rightarrow> process_event list \<Rightarrow> 'j spawned" where
  "spawn_run parse st evs = foldl (spawn_step parse) st evs"

section \<open>Evaluation of supplied code (evalFnImpl in Service.ts, /eval in Server.ts)\<close>







subsection \<open>The engine on that text\<close>


datatype js_result = ObjectResult "(string \<times> string) list" | OtherResult string



















section \<open>Calls in a row, and sample values\<close>

text \<open>
  \<open>k\<close> calls of an operation one after the other, nothing else happening in between:
  what each returned, and the state after the last.
\<close>

fun repeat_call :: "('s \<Rightarrow> 'a \<times> 's) \<Rightarrow> nat \<Rightarrow> 's \<Rightarrow> 'a list \<times> 's" where
  "repeat_call f 0 s = ([], s)"
| "repeat_call f (Suc k) s =
     (let (a, s1) = f s; (as, s2) = repeat_call f k s1 in (a # as, s2))"

text \<open>
  In a list of timer calls, each \<^verbatim>\<open>setTimeout\<close> comes after a \<^verbatim>\<open>clearTimeout\<close> of the same
  list (\<open>c\<close>: one has been seen).
\<close>

fun cancel_before_arm :: "bool \<Rightarrow> timer_call list \<Rightarrow> bool" where
  "cancel_before_arm c [] = True"
| "cancel_before_arm c (SetTimeout h ms # cs) = (c \<and> cancel_before_arm c cs)"
| "cancel_before_arm c (ClearTimeout h # cs) = cancel_before_arm True cs"

text \<open>The wrapper of \<^verbatim>\<open>create\<close> and what happens to it next, or the error of \<^verbatim>\<open>create\<close>.\<close>

definition created_run ::
  "create_params \<Rightarrow> SpawnedInnertubeSupportService \<Rightarrow> wrapper_event list \<Rightarrow> error + wrapper" where
  "created_run params svc evs =
     (case create_spawned params svc of
        Inl err \<Rightarrow> Inl err
      | Inr w \<Rightarrow> Inr (wrapper_run w evs))"

definition sample_minter :: "int \<Rightarrow> int option \<Rightarrow> PoTokenMinterResult" where
  "sample_minter t rt = \<lparr>minter = 0, ttl = t, refreshThreshold = rt, created = 0\<rparr>"

definition sample_token :: "int \<Rightarrow> int option \<Rightarrow> POToken" where
  "sample_token t rt =
     \<lparr>params_visitorData = Some ''visitor'',
      params_identifier = \<lparr>id_type = VisitorData, id_value = ''visitor'', pageId = None\<rparr>,
      pot_value = ''token'', pot_ttl = Some t, pot_refreshThreshold = rt\<rparr>"

definition sample_client :: Innertube where
  "sample_client =
     \<lparr>visitor_data = Some ''visitor'', on_behalf_of_user = None, po_token = Some ''token'',
      gl = ''US'', hl = ''en''\<rparr>"

definition sample_service :: SpawnedInnertubeSupportService where
  "sample_service = \<lparr>svc_status = Started ''127.0.0.1'' 40000, runtime = Deno\<rparr>"

definition sample_params :: create_params where
  "sample_params = \<lparr>p_account = None, p_locale = None\<rparr>"

text \<open>A process spawned under Deno with pid 4242 that has announced its result.\<close>

definition sample_process :: "unit spawned" where
  "sample_process =
     spawn_run (\<lambda>x. Inr ()) (spawnInnertubeSupportService (DenoInstalled ''deno 2.0'') (Some 4242))
       [Line ''result: {}'']"



section \<open>Invariants of the runs\<close>

text \<open>
  At most one creation is in flight or one timer is pending, the pending timer is the one
  in the slot, and nothing is in flight or pending before the first creation.
\<close>

definition service_inv :: "service \<Rightarrow> bool" where
  "service_inv s \<longleftrightarrow>
     length (awaiting s) + length (timers s) \<le> 1
     \<and> (\<forall>t \<in> set (timers s). refreshMinterTimer s = Some (fst t))
     \<and> (minterPromise s = None \<longrightarrow> awaiting s = [] \<and> timers s = [])"

definition wrapper_inv :: "wrapper \<Rightarrow> bool" where
  "wrapper_inv w \<longleftrightarrow>
     length (suspended w) + length (timers w) \<le> 1
     \<and> (\<forall>t \<in> set (timers w). poTokenRefreshTimer w = Some (fst t))
     \<and> (\<not> disposed w \<longrightarrow> innertubePromise w \<noteq> None)
     \<and> (disposed w \<longrightarrow> timers w = [])"

section \<open>Token lifetime returned by /pot\<close>

lemma potFn_ttl: "res_ttl (potFn_result r tok now) = (ttl r * 1000 + created r - now) div 1000"
  by (simp add: potFn_result_def)

lemma adjusted_ceiling:
  "(t * 1000 + c - now) div 1000 = t - (now - c + 999) div (1000 :: int)"
  by linarith

text \<open>
  C10. A \<^verbatim>\<open>GET /pot\<close> request with an identifier, served from a minter with declared
  \<open>ttl\<close> created at \<open>created\<close>, answers 200 with
  \<open>ttl = floor ((ttl * 1000 + created - now) / 1000)\<close>: the declared ttl less the elapsed
  time in seconds, a started second counting as a whole one. The value does not increase
  as time passes and is at most zero once the minter is as old as its ttl.
\<close>

theorem pot_adjusted_ttl:
  "i \<noteq> [] \<longrightarrow>
     pot_route (\<lambda>i. potFn_result r (mint i) now) (Some i)
       = Response 200 (JsonBody (potFn_result r (mint i) now))
     \<and> res_ttl (potFn_result r (mint i) now) = (ttl r * 1000 + created r - now) div 1000
     \<and> res_ttl (potFn_result r (mint i) now) = ttl r - (now - created r + 999) div 1000
     \<and> (now \<le> now' \<longrightarrow> res_ttl (potFn_result r (mint i) now') \<le> res_ttl (potFn_result r (mint i) now))
     \<and> (ttl r * 1000 \<le> now - created r \<longrightarrow> res_ttl (potFn_result r (mint i) now) \<le> 0)"
proof (intro impI conjI)
  assume "i \<noteq> []"
  then show "pot_route (\<lambda>i. potFn_result r (mint i) now) (Some i)
       = Response 200 (JsonBody (potFn_result r (mint i) now))"
    by (simp add: pot_route_def)
next
  show "res_ttl (potFn_result r (mint i) now) = (ttl r * 1000 + created r - now) div 1000"
    by (rule potFn_ttl)
next
  show "res_ttl (potFn_result r (mint i) now) = ttl r - (now - created r + 999) div 1000"
    by (simp only: potFn_ttl adjusted_ceiling)
next
  assume "now \<le> now'"
  then have "ttl r * 1000 + created r - now' \<le> ttl r * 1000 + created r - now" by simp
  then show "res_ttl (potFn_result r (mint i) now') \<le> res_ttl (potFn_result r (mint i) now)"
    by (simp only: potFn_ttl zdiv_mono1)
next
  assume "ttl r * 1000 \<le> now - created r"
  then have "ttl r * 1000 + created r - now \<le> 0" by simp
  then have "(ttl r * 1000 + created r - now) div 1000 \<le> 0 div 1000"
    by (rule zdiv_mono1) simp
  then show "res_ttl (potFn_result r (mint i) now) \<le> 0"
    by (simp only: potFn_ttl)
qed

theorem pot_adjusted_ttl_witness:
  "res_ttl (potFn_result \<lparr>minter = 0, ttl = 500, refreshThreshold = Some 100, created = 1000\<rparr>
      ''tok'' 2500) = 498
   \<and> res_ttl (potFn_result \<lparr>minter = 0, ttl = 500, refreshThreshold = Some 100, created = 1000\<rparr>
      ''tok'' 3000)
     \<le> res_ttl (potFn_result \<lparr>minter = 0, ttl = 500, refreshThreshold = Some 100, created = 1000\<rparr>
      ''tok'' 2500)
   \<and> res_ttl (potFn_result \<lparr>minter = 0, ttl = 500, refreshThreshold = Some 100, created = 1000\<rparr>
      ''tok'' 601000) \<le> 0"
  using pot_adjusted_ttl [of "''id''"
          "\<lparr>minter = 0, ttl = 500, refreshThreshold = Some 100, created = 1000\<rparr>"
          "\<lambda>i. ''tok''" 2500 3000]
        pot_adjusted_ttl [of "''id''"
          "\<lparr>minter = 0, ttl = 500, refreshThreshold = Some 100, created = 1000\<rparr>"
          "\<lambda>i. ''tok''" 601000 601000]
  by simp

section \<open>Refresh of the minter\<close>

lemma createMinter_resume_timers:
  "timers (createMinter_resume p (Inr r) s) =
     timers s @ [(next_timer s,
       (ttl r - (case refreshThreshold r of None \<Rightarrow> 100 | Some t \<Rightarrow> t) - 100) * 1000)]"
  by (simp add: setTimeout_def Let_def)

lemma createMinter_resume_slot:
  "refreshMinterTimer (createMinter_resume p (Inr r) s) = Some (next_timer s)"
  by (simp add: setTimeout_def Let_def)

lemma createMinter_resume_outcome:
  "outcome (createMinter_resume p res s) p = Some res"
  by (cases res) (simp_all add: setTimeout_def Let_def)

text \<open>
  C4. When \<^verbatim>\<open>createPoTokenMinter\<close> has returned a minter with \<open>ttl\<close> and \<open>refreshThreshold\<close>
  (100 when absent), \<^verbatim>\<open>#createMinter\<close> adds one timer of
  \<open>(ttl - refreshThreshold - 100) * 1000\<close> ms to the pending ones, keeps its handle, and
  returns the minter. For 500 and 100 that is 300 seconds; for 50 and 100 the delay is
  negative, the call still returns the minter, and the runtime fires such a timer after
  1 ms.
\<close>

theorem createMinter_refresh_delay:
  "timers (createMinter_resume p (Inr r) s) =
     timers s @ [(next_timer s,
       (ttl r - (case refreshThreshold r of None \<Rightarrow> 100 | Some t \<Rightarrow> t) - 100) * 1000)]
   \<and> refreshMinterTimer (createMinter_resume p (Inr r) s) = Some (next_timer s)
   \<and> outcome (createMinter_resume p (Inr r) s) p = Some (Inr r)
   \<and> (ttl r = 500 \<and> refreshThreshold r = Some 100 \<longrightarrow>
        snd (last (timers (createMinter_resume p (Inr r) s))) = 300 * 1000)
   \<and> (ttl r = 50 \<and> refreshThreshold r = Some 100 \<longrightarrow>
        snd (last (timers (createMinter_resume p (Inr r) s))) < 0
        \<and> node_delay (snd (last (timers (createMinter_resume p (Inr r) s)))) = 1)"
  by (simp del: createMinter_resume.simps
      add: createMinter_resume_timers createMinter_resume_slot createMinter_resume_outcome
        node_delay_def)

theorem createMinter_refresh_delay_witness:
  "snd (last (timers (createMinter_resume 0
      (Inr \<lparr>minter = 0, ttl = 500, refreshThreshold = Some 100, created = 0\<rparr>)
      (snd (createMinter_begin new_service))))) = 300 * 1000
   \<and> node_delay (snd (last (timers (createMinter_resume 0
      (Inr \<lparr>minter = 0, ttl = 50, refreshThreshold = Some 100, created = 0\<rparr>)
      (snd (createMinter_begin new_service)))))) = 1
   \<and> snd (last (timers (createMinter_resume 0
      (Inr \<lparr>minter = 0, ttl = 500, refreshThreshold = None, created = 0\<rparr>)
      (snd (createMinter_begin new_service))))) = 300 * 1000"
  using createMinter_refresh_delay [of 0
          "\<lparr>minter = 0, ttl = 500, refreshThreshold = Some 100, created = 0\<rparr>"
          "snd (createMinter_begin new_service)"]
        createMinter_refresh_delay [of 0
          "\<lparr>minter = 0, ttl = 50, refreshThreshold = Some 100, created = 0\<rparr>"
          "snd (createMinter_begin new_service)"]
        createMinter_refresh_delay [of 0
          "\<lparr>minter = 0, ttl = 500, refreshThreshold = None, created = 0\<rparr>"
          "snd (createMinter_begin new_service)"]
  by (simp del: createMinter_resume.simps add: node_delay_def)

section \<open>Start and stop of the service\<close>

text \<open>
  C2, evaluated on the code. A new service whose server has listened on 127.0.0.1:40000:
  the promise of \<^verbatim>\<open>start()\<close> is fulfilled with the started status, the server is started,
  yet the \<^verbatim>\<open>status\<close> getter still answers stopped, because no path of \<^verbatim>\<open>start()\<close> assigns
  \<^verbatim>\<open>#status\<close> a started value; \<^verbatim>\<open>stop()\<close> therefore returns at its first test and never
  reaches \<^verbatim>\<open>this.#server.stop()\<close>.
\<close>

theorem start_never_sets_status:
  "startPromise (start_resume (Inr (''127.0.0.1'', 40000)) (start new_service))
     = Some (Fulfilled (Started ''127.0.0.1'' 40000))
   \<and> map_option srv_status (server (start_resume (Inr (''127.0.0.1'', 40000)) (start new_service)))
     = Some SrvStarted
   \<and> status (start_resume (Inr (''127.0.0.1'', 40000)) (start new_service)) = Stopped
   \<and> stop (start_resume (Inr (''127.0.0.1'', 40000)) (start new_service)) = None"
  by (simp add: start_def new_service_def stop_def server_start_def new_server_def)

text \<open>No step of the service gives \<^verbatim>\<open>#status\<close> a started value, so no run does.\<close>

lemma status_step: "status s = Stopped \<Longrightarrow> status (service_step s ev) = Stopped"
proof (cases ev)
  case (Listened r)
  assume "status s = Stopped"
  then show ?thesis using Listened by (cases r) simp_all
next
  case (ExchangeSettled p r)
  assume "status s = Stopped"
  then show ?thesis using ExchangeSettled
    by (cases r) (simp_all add: setTimeout_def Let_def)
qed (simp_all add: start_def stop_finally_def getMinter_def createMinter_begin_def
    clearRefreshMinterTimer_def clearTimeout_def timer_fired_def refreshMinter_fired_def
    Let_def split: option.splits)

lemma status_foldl: "status s = Stopped \<Longrightarrow> status (foldl service_step s evs) = Stopped"
  by (induction evs arbitrary: s) (simp_all add: status_step)

lemma status_never_started: "status (service_run evs) = Stopped \<and> stop (service_run evs) = None"
proof -
  have "status (service_run evs) = Stopped"
    unfolding service_run_def by (rule status_foldl) (simp add: new_service_def)
  then show ?thesis by (simp add: stop_def)
qed

section \<open>Runs of the service: one creation or one timer\<close>

lemma service_inv_new: "service_inv new_service"
  by (simp add: service_inv_def new_service_def)

lemma one_slot:
  "length xs + length ys \<le> Suc 0 \<Longrightarrow> (xs = [] \<and> ys = []) \<or> (\<exists>x. xs = [x] \<and> ys = []) \<or> (\<exists>y. xs = [] \<and> ys = [y])"
  by (cases xs; cases ys) auto

lemma service_inv_getMinter:
  assumes "service_inv s" shows "service_inv (snd (getMinter False s))"
  using assms
  by (auto simp: service_inv_def getMinter_def createMinter_begin_def clearRefreshMinterTimer_def
      clearTimeout_def timer_fired_def Let_def split: option.splits list.splits)

lemma service_inv_resume:
  assumes "service_inv s" "p \<in> set (awaiting s)" shows "service_inv (createMinter_resume p r s)"
proof -
  from assms have a: "awaiting s = [p]" "timers s = []"
    by (auto simp: service_inv_def dest!: one_slot)
  from assms(1) a have m: "minterPromise s \<noteq> None"
    by (auto simp: service_inv_def)
  show ?thesis using a m
    by (cases r) (auto simp: service_inv_def setTimeout_def Let_def)
qed

lemma service_inv_fired:
  assumes "service_inv s" "h \<in> fst ` set (timers s)"
  shows "service_inv (refreshMinter_fired (timer_fired h s))"
proof -
  from assms obtain d where a: "timers s = [(h, d)]" "awaiting s = []"
    by (auto simp: service_inv_def dest!: one_slot)
  with assms(1) have f: "refreshMinterTimer s = Some h"
    by (simp add: service_inv_def)
  show ?thesis using a f
    by (simp add: service_inv_def refreshMinter_fired_def createMinter_begin_def
        clearRefreshMinterTimer_def clearTimeout_def timer_fired_def Let_def)
qed

lemma service_inv_step: "service_inv s \<Longrightarrow> service_inv (service_step s ev)"
proof (cases ev)
  case StartCalled
  assume "service_inv s"
  then show ?thesis using StartCalled
    by (simp add: service_inv_def start_def split: option.splits)
next
  case (Listened r)
  assume "service_inv s"
  then show ?thesis using Listened
    by (cases r) (simp_all add: service_inv_def)
next
  case StopSettled
  assume "service_inv s"
  then show ?thesis using StopSettled
    by (simp add: service_inv_def stop_finally_def)
next
  case PotRequested
  assume "service_inv s"
  then show ?thesis using PotRequested by (simp add: service_inv_getMinter)
next
  case (ExchangeSettled p r)
  assume "service_inv s"
  then show ?thesis using ExchangeSettled by (simp add: service_inv_resume del: createMinter_resume.simps)
next
  case (TimerFired h)
  assume "service_inv s"
  then show ?thesis using TimerFired by (simp add: service_inv_fired)
qed

lemma service_inv_foldl: "service_inv s \<Longrightarrow> service_inv (foldl service_step s evs)"
  by (induction evs arbitrary: s) (simp_all add: service_inv_step)

lemma service_inv_run: "service_inv (service_run evs)"
  by (simp add: service_run_def service_inv_foldl service_inv_new)

section \<open>Runs of the wrapper: one construction or one timer\<close>

lemma wrapper_inv_created:
  "create_spawned params svc = Inr w \<Longrightarrow> wrapper_inv w"
  by (auto simp: create_spawned_def wrapper_inv_def new_wrapper_def initInnertubePromise_def
      initInnertube_begin_def clearPoTokenRefreshTimer_def Let_def
      split: InnertubeSupportServiceStatus.splits)

lemma applyLocale_Inr:
  "applyLocale w = Inr w1 \<Longrightarrow> \<not> disposed w \<and> (\<exists>x. w1 = w\<lparr>innertube := x\<rparr>)"
proof (cases "innertube w")
  case None
  assume "applyLocale w = Inr w1"
  then have "\<not> disposed w \<and> w1 = w\<lparr>innertube := innertube w\<rparr>"
    using None by (simp add: applyLocale_def checkDisposed_def split: if_splits)
  then show ?thesis by blast
next
  case (Some i)
  assume "applyLocale w = Inr w1"
  then show ?thesis
    using Some by (auto simp: applyLocale_def checkDisposed_def split: if_splits)
qed

lemma wrapper_inv_getInnertube: "wrapper_inv w \<Longrightarrow> wrapper_inv (snd (getInnertube w))"
  by (auto simp: wrapper_inv_def getInnertube_def checkDisposed_def initInnertubePromise_def
      split: option.splits)

lemma wrapper_inv_setLocale: "wrapper_inv w \<Longrightarrow> wrapper_inv (snd (setLocale l w))"
  by (auto simp: wrapper_inv_def setLocale_def checkDisposed_def applyLocale_def
      split: option.splits)

lemma wrapper_inv_dispose: "wrapper_inv w \<Longrightarrow> wrapper_inv (snd (dispose w))"
proof -
  assume i: "wrapper_inv w"
  then have "timers (clearPoTokenRefreshTimer w) = []"
    by (cases "timers w")
      (auto simp: wrapper_inv_def clearPoTokenRefreshTimer_def clearTimeout_def
        dest!: one_slot split: option.splits)
  moreover have "suspended (clearPoTokenRefreshTimer w) = suspended w"
    by (simp add: clearPoTokenRefreshTimer_def clearTimeout_def split: option.splits)
  ultimately show ?thesis using i
    by (auto simp: wrapper_inv_def dispose_def Let_def)
qed

lemma wrapper_inv_settle:
  assumes "wrapper_inv w" "suspended w = [(p, ph)]"
  shows "wrapper_inv (init_settle p r w)"
  using assms by (simp add: wrapper_inv_def init_settle_def)

lemma wrapper_inv_suspend:
  assumes "wrapper_inv w" "suspended w = [(p, ph)]"
  shows "wrapper_inv (init_suspend p ph' w)"
  using assms by (simp add: wrapper_inv_def init_suspend_def)

lemma wrapper_inv_unbound:
  assumes "wrapper_inv w" "suspended w = [(p, ph)]"
  shows "wrapper_inv (initInnertube_unbound p w)"
  using assms
  by (auto simp: wrapper_inv_def init_settle_def initInnertube_unbound_def applyLocale_def
      checkDisposed_def split: option.splits)

lemma wrapper_inv_token:
  assumes "wrapper_inv w" "(p, AwaitSessionPoToken) \<in> set (suspended w)"
  shows "wrapper_inv (initInnertube_token p r w)"
proof -
  from assms have a: "suspended w = [(p, AwaitSessionPoToken)]"
    by (auto simp: wrapper_inv_def dest!: one_slot)
  have b: "wrapper_inv (w\<lparr>lastSessionPoToken := x\<rparr>)" for x
    using assms(1) by (simp add: wrapper_inv_def)
  have c: "suspended (w\<lparr>lastSessionPoToken := x\<rparr>) = [(p, AwaitSessionPoToken)]" for x
    using a by simp
  show ?thesis
  proof (cases r)
    case (Inl err)
    then show ?thesis using assms(1) a by (simp add: wrapper_inv_settle)
  next
    case (Inr sessionPot)
    then show ?thesis
      using wrapper_inv_unbound [OF b c] wrapper_inv_suspend [OF b c]
      by (simp add: Let_def split: option.splits)
  qed
qed

lemma wrapper_inv_arm:
  assumes "wrapper_inv w" "\<not> disposed w" "timers w = []" "suspended w = [(p, ph)]"
  shows "wrapper_inv (init_settle p r (arm_refresh pot w))"
  using assms
  by (auto simp: wrapper_inv_def init_settle_def arm_refresh_def setTimeout_def Let_def
      split: option.splits)

lemma wrapper_inv_created_step:
  assumes "wrapper_inv w" "map_of (suspended w) p = Some (AwaitInnertube sessionPot)"
  shows "wrapper_inv (initInnertube_created p sessionPot r w)"
proof -
  from assms(2) have "(p, AwaitInnertube sessionPot) \<in> set (suspended w)"
    by (rule map_of_SomeD)
  with assms(1) have a: "suspended w = [(p, AwaitInnertube sessionPot)]" "timers w = []"
    by (auto simp: wrapper_inv_def dest!: one_slot)
  have b: "wrapper_inv (w\<lparr>innertube := x\<rparr>)" for x
    using assms(1) by (simp add: wrapper_inv_def)
  have c: "suspended (w\<lparr>innertube := x\<rparr>) = [(p, AwaitInnertube sessionPot)]" for x
    using a by simp
  show ?thesis
  proof (cases r)
    case (Inl err)
    then show ?thesis using assms(1) a by (simp add: wrapper_inv_settle)
  next
    case (Inr i)
    show ?thesis
    proof (cases sessionPot)
      case None
      then show ?thesis using Inr wrapper_inv_unbound [OF b c] by simp
    next
      case (Some pot)
      show ?thesis
      proof (cases "applyLocale (w\<lparr>innertube := Some i\<rparr>)")
        case (Inl err)
        then show ?thesis using Inr Some wrapper_inv_settle [OF b c] by simp
      next
        case loc: (Inr w1)
        from applyLocale_Inr [OF loc] obtain x where
          w1: "w1 = w\<lparr>innertube := x\<rparr>" and nd: "\<not> disposed w" by auto
        have "wrapper_inv (init_settle p (Inr (innertube (arm_refresh pot w1))) (arm_refresh pot w1))"
          unfolding w1 by (rule wrapper_inv_arm [OF b]) (use nd a in simp_all)
        then show ?thesis using Inr Some loc by (simp add: Let_def)
      qed
    qed
  qed
qed

lemma wrapper_inv_fired:
  assumes "wrapper_inv w" "h \<in> fst ` set (timers w)"
  shows "wrapper_inv (refreshSessionPoToken (timer_fired h w))"
proof -
  from assms obtain d where a: "timers w = [(h, d)]" "suspended w = []"
    by (auto simp: wrapper_inv_def dest!: one_slot)
  with assms(1) have f: "poTokenRefreshTimer w = Some h" "\<not> disposed w"
    by (auto simp: wrapper_inv_def)
  show ?thesis using a f
    by (simp add: wrapper_inv_def refreshSessionPoToken_def initInnertube_begin_def
        clearPoTokenRefreshTimer_def clearTimeout_def timer_fired_def Let_def)
qed

lemma wrapper_inv_step: "wrapper_inv w \<Longrightarrow> wrapper_inv (wrapper_step w ev)"
proof (cases ev)
  case GetInnertube
  assume "wrapper_inv w"
  then show ?thesis using GetInnertube by (simp add: wrapper_inv_getInnertube)
next
  case (SetLocale l)
  assume "wrapper_inv w"
  then show ?thesis using SetLocale by (simp add: wrapper_inv_setLocale)
next
  case (GeneratePoToken i)
  assume "wrapper_inv w"
  then show ?thesis using GeneratePoToken by simp
next
  case Dispose
  assume "wrapper_inv w"
  then show ?thesis using Dispose by (simp add: wrapper_inv_dispose)
next
  case DisposeStopped
  assume "wrapper_inv w"
  then show ?thesis using DisposeStopped by (simp add: wrapper_inv_def dispose_resume_def)
next
  case ServiceStopped
  assume "wrapper_inv w"
  then show ?thesis using ServiceStopped by (simp add: wrapper_inv_def)
next
  case (SessionPoTokenSettled p r)
  assume "wrapper_inv w"
  then show ?thesis using SessionPoTokenSettled
    by (simp add: wrapper_inv_token del: initInnertube_token.simps)
next
  case (InnertubeCreated p r)
  assume "wrapper_inv w"
  then show ?thesis using InnertubeCreated
    by (simp add: wrapper_inv_created_step del: initInnertube_created.simps
        split: option.splits init_phase.splits)
next
  case (RefreshTimerFired h)
  assume "wrapper_inv w"
  then show ?thesis using RefreshTimerFired by (simp add: wrapper_inv_fired)
qed

lemma wrapper_inv_run: "wrapper_inv w \<Longrightarrow> wrapper_inv (wrapper_run w evs)"
  unfolding wrapper_run_def
  by (induction evs arbitrary: w) (simp_all add: wrapper_inv_step)

section \<open>Refresh of the session\<close>

lemma arm_refresh_timers:
  assumes "pot_ttl pot = Some t" "t \<noteq> 0"
  shows "timers (arm_refresh pot w) =
           timers w @ [(next_timer w,
             (let d = t - (case pot_refreshThreshold pot of None \<Rightarrow> 100 | Some r \<Rightarrow> r)
              in if d < 0 then 120 else d) * 1000)]"
    and "poTokenRefreshTimer (arm_refresh pot w) = Some (next_timer w)"
  using assms by (simp_all add: arm_refresh_def setTimeout_def Let_def)

lemma applyLocale_timers:
  "applyLocale w = Inr w1 \<Longrightarrow> timers w1 = timers w \<and> next_timer w1 = next_timer w"
  by (auto simp: applyLocale_def checkDisposed_def split: option.splits if_splits)

lemma applyLocale_live: "\<not> disposed w \<Longrightarrow> \<exists>w1. applyLocale w = Inr w1"
  by (simp add: applyLocale_def checkDisposed_def split: option.splits)

text \<open>
  C1, as the code has it. When \<^verbatim>\<open>#initInnertube\<close>, not disposed, has created the client for
  a session token with a ttl other than zero, it adds one timer to the pending ones and
  keeps its handle: of \<open>ttl - refreshThreshold\<close> seconds (\<open>refreshThreshold\<close> 100 when absent)
  when that difference is not negative, of 120 seconds when it is negative.
\<close>

theorem session_refresh_timer:
  "\<not> disposed w \<and> pot_ttl pot = Some t \<and> t \<noteq> 0 \<longrightarrow>
     timers (initInnertube_created p (Some pot) (Inr i) w) =
       timers w @ [(next_timer w,
         (let d = t - (case pot_refreshThreshold pot of None \<Rightarrow> 100 | Some r \<Rightarrow> r)
          in if d < 0 then 120 else d) * 1000)]
     \<and> poTokenRefreshTimer (initInnertube_created p (Some pot) (Inr i) w) = Some (next_timer w)"
proof (intro impI)
  assume a: "\<not> disposed w \<and> pot_ttl pot = Some t \<and> t \<noteq> 0"
  then have "\<not> disposed (w\<lparr>innertube := Some i\<rparr>)" by simp
  from applyLocale_live [OF this] obtain w1 where
    w1: "applyLocale (w\<lparr>innertube := Some i\<rparr>) = Inr w1" by blast
  from applyLocale_timers [OF w1] have t: "timers w1 = timers w" "next_timer w1 = next_timer w"
    by simp_all
  from a have b: "pot_ttl pot = Some t" "t \<noteq> 0" by simp_all
  show "timers (initInnertube_created p (Some pot) (Inr i) w) =
       timers w @ [(next_timer w,
         (let d = t - (case pot_refreshThreshold pot of None \<Rightarrow> 100 | Some r \<Rightarrow> r)
          in if d < 0 then 120 else d) * 1000)]
     \<and> poTokenRefreshTimer (initInnertube_created p (Some pot) (Inr i) w) = Some (next_timer w)"
    using w1 arm_refresh_timers [OF b, of w1] t
    by (simp add: init_settle_def Let_def)
qed

theorem session_refresh_timer_witness:
  "timers (initInnertube_created 0 (Some (sample_token 200 (Some 100))) (Inr sample_client) new_wrapper)
     = [(0, 100 * 1000)]
   \<and> timers (initInnertube_created 0 (Some (sample_token 150 (Some 100))) (Inr sample_client) new_wrapper)
     = [(0, 50 * 1000)]
   \<and> timers (initInnertube_created 0 (Some (sample_token 50 (Some 100))) (Inr sample_client) new_wrapper)
     = [(0, 120 * 1000)]
   \<and> timers (initInnertube_created 0 (Some (sample_token 300 None)) (Inr sample_client) new_wrapper)
     = [(0, 200 * 1000)]"
  using session_refresh_timer [of new_wrapper "sample_token 200 (Some 100)" 200 0 sample_client]
    session_refresh_timer [of new_wrapper "sample_token 150 (Some 100)" 150 0 sample_client]
    session_refresh_timer [of new_wrapper "sample_token 50 (Some 100)" 50 0 sample_client]
    session_refresh_timer [of new_wrapper "sample_token 300 None" 300 0 sample_client]
  by (simp add: new_wrapper_def sample_token_def del: initInnertube_created.simps)

text \<open>
  C1 as stated fails: a wrapper just created, whose session token has ttl 150 and
  \<open>refreshThreshold\<close> 100, arms its timer for 50 seconds, not for \<open>max 50 120 = 120\<close>.
\<close>

theorem session_refresh_floor_counterexample:
  "map_sum id timers (created_run sample_params sample_service
       [SessionPoTokenSettled 0 (Inr (Some (sample_token 150 (Some 100)))),
        InnertubeCreated 0 (Inr sample_client)]) = Inr [(0, 50 * 1000)]
   \<and> map_sum id timers (created_run sample_params sample_service
       [SessionPoTokenSettled 0 (Inr (Some (sample_token 150 (Some 100)))),
        InnertubeCreated 0 (Inr sample_client)]) \<noteq> Inr [(0, max (150 - 100) 120 * 1000)]"
  by (simp add: created_run_def create_spawned_def sample_params_def sample_service_def
      sample_token_def sample_client_def wrapper_run_def new_wrapper_def initInnertubePromise_def
      initInnertube_begin_def clearPoTokenRefreshTimer_def init_suspend_def init_settle_def
      applyLocale_def checkDisposed_def truthy_def arm_refresh_def setTimeout_def Let_def)

section \<open>Disposal\<close>

lemma disposed_created: "disposed w \<Longrightarrow> disposed (initInnertube_created p sp r w)"
  by (cases r; cases sp)
    (simp_all add: init_settle_def initInnertube_unbound_def applyLocale_def checkDisposed_def)

lemma disposed_step: "disposed w \<Longrightarrow> disposed (wrapper_step w ev)"
proof (cases ev)
  case (SessionPoTokenSettled p r)
  assume "disposed w"
  then show ?thesis using SessionPoTokenSettled
    by (cases r)
      (auto simp: init_settle_def init_suspend_def initInnertube_unbound_def applyLocale_def
        checkDisposed_def Let_def split: option.splits)
next
  case (InnertubeCreated p r)
  assume "disposed w"
  then show ?thesis using InnertubeCreated
    by (simp add: disposed_created del: initInnertube_created.simps
        split: option.splits init_phase.splits)
next
  case (RefreshTimerFired h)
  assume "disposed w"
  then show ?thesis using RefreshTimerFired
    by (simp add: refreshSessionPoToken_def initInnertube_begin_def clearPoTokenRefreshTimer_def
        clearTimeout_def timer_fired_def Let_def split: option.splits)
qed (simp_all add: getInnertube_def setLocale_def dispose_def dispose_resume_def checkDisposed_def)

lemma disposed_run: "disposed w \<Longrightarrow> disposed (wrapper_run w evs)"
  unfolding wrapper_run_def
  by (induction evs arbitrary: w) (simp_all add: disposed_step)

lemma disposed_dispose: "disposed (snd (dispose w))"
  by (simp add: dispose_def Let_def)

text \<open>
  C6, as the code has it. After \<^verbatim>\<open>dispose()\<close> has run up to its \<^verbatim>\<open>await\<close> (in any state),
  and whatever happens to the wrapper next, it is disposed: another \<^verbatim>\<open>dispose()\<close> returns
  at once and changes nothing; \<^verbatim>\<open>getInnertube\<close> and \<^verbatim>\<open>setLocale\<close> throw the error of
  \<^verbatim>\<open>#checkDisposed\<close> and change nothing; \<^verbatim>\<open>generatePoToken\<close>, an async method, does not
  throw: it returns a promise already rejected with that error, and sends no request.
\<close>

theorem dispose_idempotent_and_final:
  "disposed (wrapper_run (snd (dispose w)) evs)
   \<and> dispose (wrapper_run (snd (dispose w)) evs)
       = (DisposeReturned, wrapper_run (snd (dispose w)) evs)
   \<and> getInnertube (wrapper_run (snd (dispose w)) evs)
       = (Throws DisposedError, wrapper_run (snd (dispose w)) evs)
   \<and> generatePoToken ident (wrapper_run (snd (dispose w)) evs) = Returns (Rejected DisposedError)
   \<and> generatePoToken_fetch ident (wrapper_run (snd (dispose w)) evs) = Inl DisposedError
   \<and> setLocale l (wrapper_run (snd (dispose w)) evs)
       = (Throws DisposedError, wrapper_run (snd (dispose w)) evs)"
proof -
  have d: "disposed (wrapper_run (snd (dispose w)) evs)"
    by (rule disposed_run [OF disposed_dispose])
  then show ?thesis
    by (simp add: dispose_def getInnertube_def generatePoToken_def generatePoToken_fetch_def
        setLocale_def checkDisposed_def)
qed

theorem dispose_idempotent_and_final_witness:
  "fst (getInnertube (wrapper_run (snd (dispose new_wrapper)) [GetInnertube, Dispose, DisposeStopped]))
     = Throws (Error ''Innertube instance already disposed'')
   \<and> generatePoToken ''video'' (wrapper_run (snd (dispose new_wrapper)) [GetInnertube, Dispose, DisposeStopped])
     = Returns (Rejected (Error ''Innertube instance already disposed''))
   \<and> fst (dispose (wrapper_run (snd (dispose new_wrapper)) [GetInnertube, Dispose, DisposeStopped]))
     = DisposeReturned"
  using dispose_idempotent_and_final [of new_wrapper "[GetInnertube, Dispose, DisposeStopped]" "''video''"]
  by (simp add: DisposedError_def)

text \<open>
  C6 as stated fails for one of the three operations: on a wrapper that has been disposed,
  the call of \<^verbatim>\<open>generatePoToken\<close> returns (a rejected promise); it does not throw.
\<close>

theorem generatePoToken_returns_counterexample:
  "generatePoToken ''video'' (snd (dispose new_wrapper))
     = Returns (Rejected (Error ''Innertube instance already disposed''))
   \<and> generatePoToken ''video'' (snd (dispose new_wrapper))
     \<noteq> Throws (Error ''Innertube instance already disposed'')"
  by (simp add: generatePoToken_def generatePoToken_fetch_def checkDisposed_def DisposedError_def
      dispose_def new_wrapper_def clearPoTokenRefreshTimer_def Let_def)

section \<open>One creation for many callers\<close>

lemma repeat_call_fixed: "f s = (a, s) \<Longrightarrow> repeat_call f k s = (replicate k a, s)"
  by (induction k) simp_all

lemma repeat_call_memo:
  "f s = (a, s1) \<Longrightarrow> f s1 = (a, s1) \<Longrightarrow> repeat_call f (Suc k) s = (replicate (Suc k) a, s1)"
  by (simp add: repeat_call_fixed)

lemma getMinter_first:
  assumes "minterPromise s = None"
  shows "getMinter False s =
    (exchanges s, (clearRefreshMinterTimer s)
       \<lparr>exchanges := Suc (exchanges s), awaiting := awaiting s @ [exchanges s],
        minterPromise := Some (exchanges s)\<rparr>)"
  using assms
  by (simp add: getMinter_def createMinter_begin_def clearRefreshMinterTimer_def clearTimeout_def
      Let_def split: option.splits)

lemma getMinter_memo: "minterPromise s = Some p \<Longrightarrow> getMinter False s = (p, s)"
  by (simp add: getMinter_def)

lemma getMinter_calls:
  assumes "minterPromise s = None"
  shows "repeat_call (getMinter False) (Suc k) s =
    (replicate (Suc k) (exchanges s), snd (getMinter False s))"
proof -
  obtain s1 where 1: "getMinter False s = (exchanges s, s1)"
    and m: "minterPromise s1 = Some (exchanges s)"
    using getMinter_first [OF assms] by simp
  from m have "getMinter False s1 = (exchanges s, s1)" by (rule getMinter_memo)
  with 1 have "repeat_call (getMinter False) (Suc k) s = (replicate (Suc k) (exchanges s), s1)"
    by (rule repeat_call_memo)
  then show ?thesis using 1 by simp
qed

lemma getInnertube_first:
  assumes "\<not> disposed w" "innertubePromise w = None"
  shows "getInnertube w =
    (Returns (inits w), (clearPoTokenRefreshTimer w)
       \<lparr>inits := Suc (inits w), suspended := suspended w @ [(inits w, AwaitSessionPoToken)],
        innertubePromise := Some (inits w)\<rparr>)"
  using assms
  by (simp add: getInnertube_def checkDisposed_def initInnertubePromise_def
      initInnertube_begin_def clearPoTokenRefreshTimer_def clearTimeout_def
      Let_def split: option.splits)

lemma getInnertube_memo:
  "\<not> disposed w \<Longrightarrow> innertubePromise w = Some p \<Longrightarrow> getInnertube w = (Returns p, w)"
  by (simp add: getInnertube_def checkDisposed_def initInnertubePromise_def)

lemma clearPoTokenRefreshTimer_disposed [simp]:
  "disposed (clearPoTokenRefreshTimer w) = disposed w"
  by (simp add: clearPoTokenRefreshTimer_def clearTimeout_def split: option.splits)

lemma getInnertube_calls:
  assumes "\<not> disposed w" "innertubePromise w = None"
  shows "repeat_call getInnertube (Suc k) w =
    (replicate (Suc k) (Returns (inits w)), snd (getInnertube w))"
proof -
  obtain w1 where 1: "getInnertube w = (Returns (inits w), w1)"
    and m: "\<not> disposed w1" "innertubePromise w1 = Some (inits w)"
    using getInnertube_first [OF assms] assms(1) by simp
  from m have "getInnertube w1 = (Returns (inits w), w1)" by (rule getInnertube_memo)
  with 1 have "repeat_call getInnertube (Suc k) w = (replicate (Suc k) (Returns (inits w)), w1)"
    by (rule repeat_call_memo)
  then show ?thesis using 1 by simp
qed

text \<open>
  C5. From a service without a cached minter, any number of calls of \<^verbatim>\<open>#getMinter()\<close> in a
  row (the default \<open>forceCreate\<close>, as every caller has it) start one exchange, all resolve
  to the promise of that one creation, and already the first call leaves that promise in
  the slot while the creation is suspended. The same for \<^verbatim>\<open>getInnertube()\<close> on a wrapper
  that is not disposed and has no session promise: one \<^verbatim>\<open>#initInnertube\<close>. And in every
  run of the service at most one exchange is in flight, in every run of a created
  wrapper at most one session construction.
\<close>

theorem single_flight:
  "(minterPromise s = None \<longrightarrow>
      fst (repeat_call (getMinter False) (Suc k) s) = replicate (Suc k) (exchanges s)
      \<and> exchanges (snd (repeat_call (getMinter False) (Suc k) s)) = Suc (exchanges s)
      \<and> minterPromise (snd (getMinter False s)) = Some (exchanges s)
      \<and> awaiting (snd (getMinter False s)) = awaiting s @ [exchanges s])
   \<and> (\<not> disposed w \<and> innertubePromise w = None \<longrightarrow>
      fst (repeat_call getInnertube (Suc k) w) = replicate (Suc k) (Returns (inits w))
      \<and> inits (snd (repeat_call getInnertube (Suc k) w)) = Suc (inits w)
      \<and> innertubePromise (snd (getInnertube w)) = Some (inits w)
      \<and> suspended (snd (getInnertube w)) = suspended w @ [(inits w, AwaitSessionPoToken)])
   \<and> length (awaiting (service_run evs)) \<le> 1
   \<and> (create_spawned params svc = Inr w' \<longrightarrow> length (suspended (wrapper_run w' evs')) \<le> 1)"
proof (intro conjI impI)
  assume a: "minterPromise s = None"
  show "fst (repeat_call (getMinter False) (Suc k) s) = replicate (Suc k) (exchanges s)"
    by (simp only: getMinter_calls [OF a] fst_conv)
  show "exchanges (snd (repeat_call (getMinter False) (Suc k) s)) = Suc (exchanges s)"
    by (simp only: getMinter_calls [OF a] snd_conv) (simp add: getMinter_first [OF a])
  show "minterPromise (snd (getMinter False s)) = Some (exchanges s)"
    by (simp add: getMinter_first [OF a])
  show "awaiting (snd (getMinter False s)) = awaiting s @ [exchanges s]"
    by (simp add: getMinter_first [OF a])
next
  assume "\<not> disposed w \<and> innertubePromise w = None"
  then have a: "\<not> disposed w" "innertubePromise w = None" by simp_all
  show "fst (repeat_call getInnertube (Suc k) w) = replicate (Suc k) (Returns (inits w))"
    by (simp only: getInnertube_calls [OF a] fst_conv)
  show "inits (snd (repeat_call getInnertube (Suc k) w)) = Suc (inits w)"
    by (simp only: getInnertube_calls [OF a] snd_conv) (simp add: getInnertube_first [OF a])
  show "innertubePromise (snd (getInnertube w)) = Some (inits w)"
    by (simp add: getInnertube_first [OF a])
  show "suspended (snd (getInnertube w)) = suspended w @ [(inits w, AwaitSessionPoToken)]"
    by (simp add: getInnertube_first [OF a])
next
  show "length (awaiting (service_run evs)) \<le> 1"
    using service_inv_run [of evs] by (simp add: service_inv_def)
next
  assume "create_spawned params svc = Inr w'"
  then have "wrapper_inv (wrapper_run w' evs')"
    by (intro wrapper_inv_run wrapper_inv_created)
  then show "length (suspended (wrapper_run w' evs')) \<le> 1"
    by (simp add: wrapper_inv_def)
qed

theorem single_flight_witness:
  "fst (repeat_call (getMinter False) (Suc 2) new_service) = [0, 0, 0]
   \<and> exchanges (snd (repeat_call (getMinter False) (Suc 2) new_service)) = 1
   \<and> fst (repeat_call getInnertube (Suc 2) new_wrapper) = [Returns 0, Returns 0, Returns 0]
   \<and> inits (snd (repeat_call getInnertube (Suc 2) new_wrapper)) = 1
   \<and> length (suspended (wrapper_run (projr (create_spawned sample_params sample_service))
        [GetInnertube, GetInnertube])) \<le> 1"
  using single_flight [of new_service 2 new_wrapper "[]" sample_params sample_service
      "projr (create_spawned sample_params sample_service)" "[GetInnertube, GetInnertube]"]
  by (simp add: new_service_def new_wrapper_def create_spawned_def sample_service_def
      numeral_2_eq_2 del: repeat_call.simps)

section \<open>Refresh timers\<close>

lemma createMinter_begin_slot: "refreshMinterTimer (snd (createMinter_begin s)) = None"
  by (simp add: createMinter_begin_def clearRefreshMinterTimer_def clearTimeout_def Let_def
      split: option.splits)

lemma initInnertube_begin_slot: "poTokenRefreshTimer (snd (initInnertube_begin w)) = None"
  by (simp add: initInnertube_begin_def clearPoTokenRefreshTimer_def clearTimeout_def Let_def
      split: option.splits)

text \<open>
  C7, as the code has it. In every run of the service, and in every run of a created
  wrapper, at most one creation is in flight or one refresh timer is pending, never both
  and never two timers. A creation empties the timer slot in its first step, before its
  \<^verbatim>\<open>await\<close>, and arms the new timer in a later step.
\<close>

theorem one_refresh_timer:
  "length (awaiting (service_run evs)) + length (timers (service_run evs)) \<le> 1
   \<and> (create_spawned params svc = Inr w \<longrightarrow>
        length (suspended (wrapper_run w evs')) + length (timers (wrapper_run w evs')) \<le> 1)
   \<and> refreshMinterTimer (snd (createMinter_begin s)) = None
   \<and> poTokenRefreshTimer (snd (initInnertube_begin w')) = None"
proof (intro conjI impI)
  show "length (awaiting (service_run evs)) + length (timers (service_run evs)) \<le> 1"
    using service_inv_run [of evs] by (simp add: service_inv_def)
next
  assume "create_spawned params svc = Inr w"
  then have "wrapper_inv (wrapper_run w evs')"
    by (intro wrapper_inv_run wrapper_inv_created)
  then show "length (suspended (wrapper_run w evs')) + length (timers (wrapper_run w evs')) \<le> 1"
    by (simp add: wrapper_inv_def)
qed (rule createMinter_begin_slot initInnertube_begin_slot)+

theorem one_refresh_timer_witness:
  "timers (service_run [PotRequested, ExchangeSettled 0 (Inr (sample_minter 500 (Some 100))),
       TimerFired 0, PotRequested, ExchangeSettled 1 (Inr (sample_minter 500 None))])
     = [(1, 300 * 1000)]
   \<and> length (timers (wrapper_run (projr (create_spawned sample_params sample_service))
        [SessionPoTokenSettled 0 (Inr (Some (sample_token 200 (Some 100)))),
         InnertubeCreated 0 (Inr sample_client), RefreshTimerFired 0,
         SessionPoTokenSettled 1 (Inr (Some (sample_token 200 (Some 100)))),
         InnertubeCreated 1 (Inr sample_client)])) \<le> 1"
proof -
  have c: "create_spawned sample_params sample_service
      = Inr (projr (create_spawned sample_params sample_service))"
    by (simp add: create_spawned_def sample_service_def)
  have "timers (service_run [PotRequested, ExchangeSettled 0 (Inr (sample_minter 500 (Some 100))),
       TimerFired 0, PotRequested, ExchangeSettled 1 (Inr (sample_minter 500 None))])
     = [(1, 300 * 1000)]"
    by (simp add: service_run_def new_service_def getMinter_def createMinter_begin_def
        clearRefreshMinterTimer_def clearTimeout_def timer_fired_def setTimeout_def
        refreshMinter_fired_def sample_minter_def Let_def)
  then show ?thesis
    using one_refresh_timer [of
        "[PotRequested, ExchangeSettled 0 (Inr (sample_minter 500 (Some 100))),
          TimerFired 0, PotRequested, ExchangeSettled 1 (Inr (sample_minter 500 None))]"
        sample_params sample_service "projr (create_spawned sample_params sample_service)"
        "[SessionPoTokenSettled 0 (Inr (Some (sample_token 200 (Some 100)))),
         InnertubeCreated 0 (Inr sample_client), RefreshTimerFired 0,
         SessionPoTokenSettled 1 (Inr (Some (sample_token 200 (Some 100)))),
         InnertubeCreated 1 (Inr sample_client)]" new_service new_wrapper] c
    by simp
qed

text \<open>
  C7 as stated fails. In the run of the service where a first request starts the creation,
  the exchange returns a minter, the refresh timer fires and the second exchange returns
  a minter, the step that arms the second timer makes one timer call, the \<^verbatim>\<open>setTimeout\<close>.
  The \<^verbatim>\<open>#clearRefreshMinterTimer()\<close> of that creation ran in the step of the fired timer, on
  the other side of the \<^verbatim>\<open>await\<close>, where it was given the handle of the timer that had just
  fired.
\<close>

theorem arming_step_cancels_nothing_counterexample:
  "calls_since
       (service_run [PotRequested, ExchangeSettled 0 (Inr (sample_minter 500 (Some 100))),
          TimerFired 0])
       (service_step
          (service_run [PotRequested, ExchangeSettled 0 (Inr (sample_minter 500 (Some 100))),
             TimerFired 0])
          (ExchangeSettled 1 (Inr (sample_minter 500 (Some 100)))))
     = [SetTimeout 1 (300 * 1000)]
   \<and> \<not> cancel_before_arm False
       (calls_since
          (service_run [PotRequested, ExchangeSettled 0 (Inr (sample_minter 500 (Some 100))),
             TimerFired 0])
          (service_step
             (service_run [PotRequested, ExchangeSettled 0 (Inr (sample_minter 500 (Some 100))),
                TimerFired 0])
             (ExchangeSettled 1 (Inr (sample_minter 500 (Some 100))))))
   \<and> calls_since
       (service_run [PotRequested, ExchangeSettled 0 (Inr (sample_minter 500 (Some 100)))])
       (service_run [PotRequested, ExchangeSettled 0 (Inr (sample_minter 500 (Some 100))),
          TimerFired 0])
     = [ClearTimeout 0]
   \<and> timers
       (service_run [PotRequested, ExchangeSettled 0 (Inr (sample_minter 500 (Some 100))),
          TimerFired 0]) = []"
  by (simp add: calls_since_def service_run_def new_service_def getMinter_def
      createMinter_begin_def clearRefreshMinterTimer_def clearTimeout_def timer_fired_def
      refreshMinter_fired_def setTimeout_def sample_minter_def Let_def)

section \<open>The spawned process\<close>

lemma result_step_pending:
  "result st = Pending \<Longrightarrow> \<not> is_result_line ev \<Longrightarrow> result (spawn_step parse st ev) = Pending"
  by (cases ev) (simp_all add: on_line_def on_close_def)

lemma result_run_pending:
  "result st = Pending \<Longrightarrow> list_all (\<lambda>ev. \<not> is_result_line ev) evs \<Longrightarrow>
     result (spawn_run parse st evs) = Pending"
  unfolding spawn_run_def
  by (induction evs arbitrary: st) (simp_all add: result_step_pending)

lemma result_spawn: "result (spawnInnertubeSupportService denoStatus child_pid) = Pending"
  by (cases denoStatus)
    (simp_all add: spawnInnertubeSupportService_def split: error.splits)

text \<open>
  C3, as the code has it. As long as no line with the prefix \<^verbatim>\<open>result: \<close> has been read,
  the promise of the spawn is pending, whatever else happens, the exit of the subprocess
  included: the \<^verbatim>\<open>'close'\<close> listener reports the exit code, calls \<^verbatim>\<open>onStop\<close> and leaves the
  promise alone. The promise is rejected when such a line arrives before any other and
  its payload does not parse.
\<close>

theorem spawn_pending_without_result_line:
  "(list_all (\<lambda>ev. \<not> is_result_line ev) evs \<longrightarrow>
      result (spawn_run parse (spawnInnertubeSupportService denoStatus child_pid) evs) = Pending)
   \<and> result (spawn_step parse st (Close code)) = result st
   \<and> callbacks (spawn_step parse st (Close code)) = callbacks st @ [OnStdOutClosed code, OnStop]
   \<and> (result st = Pending \<and> parse payload = Inl message \<longrightarrow>
        result (spawn_step parse st (Line (''result: '' @ payload)))
          = Rejected (Error (''Failed to parse service result: '' @ message)))"
  by (simp add: result_run_pending result_spawn on_close_def on_line_def settle_def)

theorem spawn_pending_without_result_line_witness:
  "result (spawn_run (\<lambda>x. Inl ''Unexpected end of JSON input'')
      (spawnInnertubeSupportService (DenoMissing (Error ''not found'')) (Some 4242) :: unit spawned)
      [StdoutData ''starting'', StderrData ''fatal'', Line ''starting'', Close (Some 1)]) = Pending
   \<and> result (spawn_step (\<lambda>x. Inl ''Unexpected end of JSON input'')
      (spawnInnertubeSupportService (DenoMissing (Error ''not found'')) (Some 4242) :: unit spawned)
      (Line (''result: '' @ ''{'')))
     = Rejected (Error ''Failed to parse service result: Unexpected end of JSON input'')"
  using spawn_pending_without_result_line [of
      "[StdoutData ''starting'', StderrData ''fatal'', Line ''starting'', Close (Some 1)]"
      "\<lambda>x. Inl ''Unexpected end of JSON input''" "DenoMissing (Error ''not found'')" "Some 4242"
      "spawnInnertubeSupportService (DenoMissing (Error ''not found'')) (Some 4242) :: unit spawned"
      "Some 1" "''{''" "''Unexpected end of JSON input''"]
  by (simp add: spawnInnertubeSupportService_def del: spawn_step.simps)

text \<open>
  C3 as stated fails: a subprocess started with Node that exits with code 1 before any
  line leaves the promise of the spawn pending, not rejected; the caller is told through
  \<^verbatim>\<open>onStop\<close> only.
\<close>

theorem spawn_exit_before_ready_counterexample:
  "result (spawn_run (\<lambda>x. Inl ''Unexpected end of JSON input'')
      (spawnInnertubeSupportService (DenoMissing (Error ''not found'')) (Some 4242) :: unit spawned)
      [Close (Some 1)]) = Pending
   \<and> \<not> is_rejected (result (spawn_run (\<lambda>x. Inl ''Unexpected end of JSON input'')
      (spawnInnertubeSupportService (DenoMissing (Error ''not found'')) (Some 4242) :: unit spawned)
      [Close (Some 1)]))
   \<and> callbacks (spawn_run (\<lambda>x. Inl ''Unexpected end of JSON input'')
      (spawnInnertubeSupportService (DenoMissing (Error ''not found'')) (Some 4242) :: unit spawned)
      [Close (Some 1)])
     = [OnStdOut ''Deno not installed or otherwise failed to start: not found'',
        OnStdOut ''Start service with Node'', OnStdOutClosed (Some 1), OnStop]"
  by (simp add: spawn_run_def spawnInnertubeSupportService_def on_close_def)

lemma settle_settle: "settle (settle p v) v = settle p v"
  by (cases p; cases v) (simp_all add: settle_def)

lemma stop_promise_step:
  assumes "k < length (stop_promises st)"
  shows "k < length (stop_promises (spawn_step parse st ev))
    \<and> stop_promises (spawn_step parse st ev) ! k =
        (if is_Close ev then settle (stop_promises st ! k) (Fulfilled ()) else stop_promises st ! k)"
proof (cases ev)
  case (Line l)
  then show ?thesis using assms
    by (simp add: on_line_def Let_def split: sum.splits)
next
  case (Close code)
  then show ?thesis using assms by (simp add: on_close_def)
next
  case StopCalled
  then show ?thesis using assms
    by (simp add: spawned_stop_def Let_def nth_append split: promise.splits option.splits)
qed (use assms in simp_all)

lemma stop_promise_run:
  "k < length (stop_promises st) \<Longrightarrow>
     k < length (stop_promises (spawn_run parse st evs))
     \<and> stop_promises (spawn_run parse st evs) ! k =
         (if list_ex is_Close evs then settle (stop_promises st ! k) (Fulfilled ())
          else stop_promises st ! k)"
  unfolding spawn_run_def
proof (induction evs arbitrary: st)
  case Nil
  then show ?case by simp
next
  case (Cons ev evs)
  from stop_promise_step [OF Cons.prems, of parse ev]
  have 1: "k < length (stop_promises (spawn_step parse st ev))"
    and 2: "stop_promises (spawn_step parse st ev) ! k =
        (if is_Close ev then settle (stop_promises st ! k) (Fulfilled ()) else stop_promises st ! k)"
    by simp_all
  from Cons.IH [OF 1] 2 show ?case
    by (simp add: settle_settle del: spawn_step.simps)
qed

lemma spawned_stop_pid:
  assumes "pid st = Some p"
  shows "fst (spawned_stop st) = length (stop_promises st)"
    and "actions (snd (spawned_stop st)) = actions st @ [TreeKill p]"
    and "stop_promises (snd (spawned_stop st)) = stop_promises st @ [Pending]"
  using assms by (simp_all add: spawned_stop_def Let_def)

text \<open>
  C8. The \<^verbatim>\<open>stop\<close> closure, called on a process with a pid, asks tree-kill to kill the
  process of that pid with its descendants, as its only action, and returns a pending
  promise; whatever happens next, that promise is fulfilled if the subprocess has closed
  since the call and pending if it has not.
\<close>

theorem stop_resolves_on_close:
  "pid st = Some p \<longrightarrow>
     actions (snd (spawned_stop st)) = actions st @ [TreeKill p]
     \<and> stop_promises (snd (spawned_stop st)) ! fst (spawned_stop st) = Pending
     \<and> stop_promises (spawn_run parse (snd (spawned_stop st)) evs) ! fst (spawned_stop st)
         = (if list_ex is_Close evs then Fulfilled () else Pending)"
proof
  assume a: "pid st = Some p"
  let ?k = "fst (spawned_stop st)" and ?st = "snd (spawned_stop st)"
  have k: "?k < length (stop_promises ?st)" and p: "stop_promises ?st ! ?k = Pending"
    by (simp_all add: spawned_stop_pid [OF a])
  from stop_promise_run [OF k, of parse evs] p
  have "stop_promises (spawn_run parse ?st evs) ! ?k
         = (if list_ex is_Close evs then Fulfilled () else Pending)"
    by (simp add: settle_def)
  then show "actions ?st = actions st @ [TreeKill p]
     \<and> stop_promises ?st ! ?k = Pending
     \<and> stop_promises (spawn_run parse ?st evs) ! ?k
         = (if list_ex is_Close evs then Fulfilled () else Pending)"
    using p by (simp add: spawned_stop_pid(2) [OF a])
qed

theorem stop_resolves_on_close_witness:
  "actions (snd (spawned_stop sample_process)) = [ReadlineClose, TreeKill 4242]
   \<and> stop_promises (spawn_run (\<lambda>x. Inr ()) (snd (spawned_stop sample_process))
        [StdoutData ''bye'']) ! 0 = Pending
   \<and> stop_promises (spawn_run (\<lambda>x. Inr ()) (snd (spawned_stop sample_process))
        [StdoutData ''bye'', Close None]) ! 0 = Fulfilled ()"
proof -
  have p: "pid sample_process = Some 4242" "actions sample_process = [ReadlineClose]"
    "fst (spawned_stop sample_process) = 0"
    by (simp_all add: sample_process_def spawn_run_def spawnInnertubeSupportService_def
        on_line_def spawned_stop_def settle_def Let_def)
  show ?thesis
    using stop_resolves_on_close [of sample_process 4242 "\<lambda>x. Inr ()" "[StdoutData ''bye'']"]
      stop_resolves_on_close [of sample_process 4242 "\<lambda>x. Inr ()" "[StdoutData ''bye'', Close None]"]
      p
    by simp
qed

section \<open>The /eval route\<close>












end
